theory Spec2Isabelle
  imports Main "HOL-Library.Word" "HOL-Library.Sublist"
begin

section \<open>The Vault View of \<^verbatim>\<open>App.vue\<close>\<close>

text \<open>
  The script block of \<^verbatim>\<open>App.vue\<close> keeps eight reactive cells and offers five
  operations over them: \<^verbatim>\<open>loadPasswords\<close>, \<^verbatim>\<open>addPassword\<close>,
  \<^verbatim>\<open>deletePassword\<close>, \<^verbatim>\<open>generatePassword\<close> and
  \<^verbatim>\<open>getFilteredPasswords\<close>. The first four talk to the Tauri backend through
  \<^verbatim>\<open>invoke\<close>; the backend itself is not part of the file and is a parameter
  of the model. Every operation is modelled as it runs from its call to its return, with
  no other operation interleaved between its \<^verbatim>\<open>await\<close> points.
\<close>

subsection \<open>Strings\<close>

text \<open>
  A JavaScript string is a sequence of UTF-16 code units. The empty list is the empty
  string, the only falsy string.
\<close>

type_synonym jsstring = "16 word list"

text \<open>
  \<^verbatim>\<open>s.includes(q)\<close>: some position of \<open>s\<close> starts an occurrence of \<open>q\<close>.
\<close>

fun includes_js :: "'a list \<Rightarrow> 'a list \<Rightarrow> bool" where
  "includes_js [] q = (q = [])"
| "includes_js (c # cs) q = (prefix q (c # cs) \<or> includes_js cs q)"

text \<open>
  \<^verbatim>\<open>x || null\<close> for an optional string \<open>x\<close>: \<^verbatim>\<open>undefined\<close> and the
  empty string are falsy and give \<^verbatim>\<open>null\<close>; any other string is kept.
\<close>

definition or_null :: "jsstring option \<Rightarrow> jsstring option" where
  "or_null x = (case x of None \<Rightarrow> None | Some u \<Rightarrow> if u = [] then None else Some u)"

text \<open>The fixed texts of the messages, as UTF-16 code units.\<close>

definition load_error_text :: jsstring where
  "load_error_text =
     [0x41E, 0x448, 0x438, 0x431, 0x43A, 0x430, 0x20, 0x43F, 0x440, 0x438, 0x20, 0x437,
      0x430, 0x433, 0x440, 0x443, 0x437, 0x43A, 0x435, 0x20, 0x43F, 0x430, 0x440, 0x43E,
      0x43B, 0x435, 0x439, 0x3A, 0x20]"

definition add_error_text :: jsstring where
  "add_error_text =
     [0x41E, 0x448, 0x438, 0x431, 0x43A, 0x430, 0x20, 0x43F, 0x440, 0x438, 0x20, 0x434,
      0x43E, 0x431, 0x430, 0x432, 0x43B, 0x435, 0x43D, 0x438, 0x438, 0x20, 0x43F, 0x430,
      0x440, 0x43E, 0x43B, 0x44F, 0x3A, 0x20]"

definition delete_error_text :: jsstring where
  "delete_error_text =
     [0x41E, 0x448, 0x438, 0x431, 0x43A, 0x430, 0x20, 0x43F, 0x440, 0x438, 0x20, 0x443,
      0x434, 0x430, 0x43B, 0x435, 0x43D, 0x438, 0x438, 0x20, 0x43F, 0x430, 0x440, 0x43E,
      0x43B, 0x44F, 0x3A, 0x20]"

definition generate_error_text :: jsstring where
  "generate_error_text =
     [0x41E, 0x448, 0x438, 0x431, 0x43A, 0x430, 0x20, 0x43F, 0x440, 0x438, 0x20, 0x433,
      0x435, 0x43D, 0x435, 0x440, 0x430, 0x446, 0x438, 0x438, 0x20, 0x43F, 0x430, 0x440,
      0x43E, 0x43B, 0x44F, 0x3A, 0x20]"

text \<open>The question of \<^verbatim>\<open>deletePassword\<close>, with the name between double quotes.\<close>

definition confirm_text :: "jsstring \<Rightarrow> jsstring" where
  "confirm_text nm =
     [0x412, 0x44B, 0x20, 0x443, 0x432, 0x435, 0x440, 0x435, 0x43D, 0x44B, 0x2C, 0x20,
      0x447, 0x442, 0x43E, 0x20, 0x445, 0x43E, 0x442, 0x438, 0x442, 0x435, 0x20, 0x443,
      0x434, 0x430, 0x43B, 0x438, 0x442, 0x44C, 0x20, 0x437, 0x430, 0x43F, 0x438, 0x441,
      0x44C, 0x20, 0x22] @ nm @ [0x22, 0x3F]"

subsection \<open>Data\<close>

text \<open>
  \<^verbatim>\<open>interface PasswordEntry\<close>: three strings and two optional strings. An optional
  field is \<open>None\<close> when it is \<^verbatim>\<open>undefined\<close> or \<^verbatim>\<open>null\<close>, which the code never
  tells apart.
\<close>

record PasswordEntry =
  name :: jsstring
  username :: jsstring
  password :: jsstring
  url :: "jsstring option"
  notes_opt :: "jsstring option"

text \<open>
  The reactive cells of the component, in the order of their declaration. The selection
  is the entry object that was clicked. No operation assigns to a field of an entry of
  the collection or of the selection, and the form object is built by the component and
  never put into the collection, so entries are values here. \<^verbatim>\<open>passwordLength\<close> is
  declared a number and is only passed on to the backend.
\<close>

record view =
  passwords :: "PasswordEntry list"
  showAddForm :: bool
  searchQuery :: jsstring
  selectedPassword :: "PasswordEntry option"
  showPassword :: bool
  errorMessage :: jsstring
  newPassword :: PasswordEntry
  passwordLength :: int

text \<open>The object literal that initialises the form and resets it after a successful add.\<close>

definition empty_form :: PasswordEntry where
  "empty_form = \<lparr>name = [], username = [], password = [], url = Some [], notes_opt = Some []\<rparr>"

definition initial_view :: view where
  "initial_view =
     \<lparr>passwords = [], showAddForm = False, searchQuery = [], selectedPassword = None,
      showPassword = False, errorMessage = [], newPassword = empty_form,
      passwordLength = 16\<rparr>"

subsection \<open>The backend behind \<^verbatim>\<open>invoke\<close>\<close>

text \<open>
  The four commands of the backend with the arguments the component sends. Each call
  either resolves with a value of the type the call site names (\<open>Inr\<close>) or rejects with
  an error (\<open>Inl\<close>); the error is carried as the string that the template literal
  of the handler makes of it. A backend has a state of its own, of any type \<open>'b\<close>.
\<close>

datatype command =
  Get_passwords
| Add_password jsstring jsstring jsstring "jsstring option" "jsstring option"
| Delete_password jsstring
| Generate_password int

record 'b backend =
  get_passwords :: "'b \<Rightarrow> (jsstring + PasswordEntry list) \<times> 'b"
  add_password ::
    "jsstring \<Rightarrow> jsstring \<Rightarrow> jsstring \<Rightarrow> jsstring option \<Rightarrow> jsstring option \<Rightarrow> 'b \<Rightarrow>
       (jsstring + unit) \<times> 'b"
  delete_password :: "jsstring \<Rightarrow> 'b \<Rightarrow> (jsstring + unit) \<times> 'b"
  generate_password :: "int \<Rightarrow> 'b \<Rightarrow> (jsstring + jsstring) \<times> 'b"

text \<open>
  What lies outside the component: the state of the backend, and what the component has
  done to the outside so far, oldest first: each command it sent through
  \<^verbatim>\<open>invoke\<close> and each question it put to the user with the answer it got.
\<close>

datatype event = Invoke command | Dialog jsstring bool

record 'b world =
  store :: 'b
  trace :: "event list"

definition invoke_get_passwords ::
  "'b backend \<Rightarrow> 'b world \<Rightarrow> (jsstring + PasswordEntry list) \<times> 'b world" where
  "invoke_get_passwords b w =
     (case get_passwords b (store w) of
        (r, st) \<Rightarrow> (r, \<lparr>store = st, trace = trace w @ [Invoke Get_passwords]\<rparr>))"

definition invoke_add_password ::
  "'b backend \<Rightarrow> jsstring \<Rightarrow> jsstring \<Rightarrow> jsstring \<Rightarrow> jsstring option \<Rightarrow> jsstring option \<Rightarrow>
     'b world \<Rightarrow> (jsstring + unit) \<times> 'b world" where
  "invoke_add_password b n u p l t w =
     (case add_password b n u p l t (store w) of
        (r, st) \<Rightarrow> (r, \<lparr>store = st, trace = trace w @ [Invoke (Add_password n u p l t)]\<rparr>))"

definition invoke_delete_password ::
  "'b backend \<Rightarrow> jsstring \<Rightarrow> 'b world \<Rightarrow> (jsstring + unit) \<times> 'b world" where
  "invoke_delete_password b n w =
     (case delete_password b n (store w) of
        (r, st) \<Rightarrow> (r, \<lparr>store = st, trace = trace w @ [Invoke (Delete_password n)]\<rparr>))"

definition invoke_generate_password ::
  "'b backend \<Rightarrow> int \<Rightarrow> 'b world \<Rightarrow> (jsstring + jsstring) \<times> 'b world" where
  "invoke_generate_password b len w =
     (case generate_password b len (store w) of
        (r, st) \<Rightarrow> (r, \<lparr>store = st, trace = trace w @ [Invoke (Generate_password len)]\<rparr>))"

subsection \<open>The operations\<close>

text \<open>
  \<^verbatim>\<open>loadPasswords\<close>: the assignment to \<^verbatim>\<open>passwords.value\<close> runs once the call has
  resolved; a rejection goes to the handler, which writes the error message.
\<close>

definition loadPasswords :: "'b backend \<Rightarrow> view \<Rightarrow> 'b world \<Rightarrow> view \<times> 'b world" where
  "loadPasswords b v w =
     (case invoke_get_passwords b w of
        (Inr ps, w1) \<Rightarrow> (v\<lparr>passwords := ps\<rparr>, w1)
      | (Inl error, w1) \<Rightarrow> (v\<lparr>errorMessage := load_error_text @ error\<rparr>, w1))"

text \<open>
  \<^verbatim>\<open>addPassword\<close>: the form is sent, then reset and closed, then the list is
  reloaded. \<^verbatim>\<open>loadPasswords\<close> handles its own rejection, so the handler of
  \<^verbatim>\<open>addPassword\<close> sees the rejection of the add command only.
\<close>

definition addPassword :: "'b backend \<Rightarrow> view \<Rightarrow> 'b world \<Rightarrow> view \<times> 'b world" where
  "addPassword b v w =
     (case invoke_add_password b
             (name (newPassword v)) (username (newPassword v)) (password (newPassword v))
             (or_null (url (newPassword v))) (or_null (notes_opt (newPassword v))) w of
        (Inr _, w1) \<Rightarrow>
          loadPasswords b (v\<lparr>newPassword := empty_form, showAddForm := False\<rparr>) w1
      | (Inl error, w1) \<Rightarrow> (v\<lparr>errorMessage := add_error_text @ error\<rparr>, w1))"

text \<open>
  \<^verbatim>\<open>confirm(question)\<close> is the dialog of the browser: \<open>confirm\<close> is the answer the
  user gives to a question.
\<close>

definition confirm_dialog :: "(jsstring \<Rightarrow> bool) \<Rightarrow> jsstring \<Rightarrow> 'b world \<Rightarrow> bool \<times> 'b world" where
  "confirm_dialog confirm question w =
     (confirm question, w\<lparr>trace := trace w @ [Dialog question (confirm question)]\<rparr>)"

text \<open>
  \<^verbatim>\<open>deletePassword(name)\<close>: everything happens inside the \<^verbatim>\<open>if\<close> on the answer.
  After a delete that resolved, the list is reloaded and the selection is dropped when
  it carries the deleted name (\<^verbatim>\<open>selectedPassword.value?.name === name\<close>).
\<close>

definition deletePassword ::
  "'b backend \<Rightarrow> (jsstring \<Rightarrow> bool) \<Rightarrow> jsstring \<Rightarrow> view \<Rightarrow> 'b world \<Rightarrow> view \<times> 'b world" where
  "deletePassword b confirm nm v w =
     (case confirm_dialog confirm (confirm_text nm) w of
        (answer, w0) \<Rightarrow>
          if answer then
            (case invoke_delete_password b nm w0 of
               (Inr _, w1) \<Rightarrow>
                 (case loadPasswords b v w1 of
                    (v2, w2) \<Rightarrow>
                      (if (case selectedPassword v2 of
                             None \<Rightarrow> False
                           | Some p \<Rightarrow> name p = nm)
                       then (v2\<lparr>selectedPassword := None\<rparr>, w2)
                       else (v2, w2)))
             | (Inl error, w1) \<Rightarrow> (v\<lparr>errorMessage := delete_error_text @ error\<rparr>, w1))
          else (v, w0))"

text \<open>\<^verbatim>\<open>generatePassword\<close>: the generated string goes into the form's password field.\<close>

definition generatePassword :: "'b backend \<Rightarrow> view \<Rightarrow> 'b world \<Rightarrow> view \<times> 'b world" where
  "generatePassword b v w =
     (case invoke_generate_password b (passwordLength v) w of
        (Inr s, w1) \<Rightarrow> (v\<lparr>newPassword := (newPassword v)\<lparr>password := s\<rparr>\<rparr>, w1)
      | (Inl error, w1) \<Rightarrow> (v\<lparr>errorMessage := generate_error_text @ error\<rparr>, w1))"

text \<open>
  \<^verbatim>\<open>getFilteredPasswords\<close> reads \<^verbatim>\<open>searchQuery\<close> and \<^verbatim>\<open>passwords\<close> and assigns
  to nothing. The case mapping of \<^verbatim>\<open>String.prototype.toLowerCase\<close> belongs to the
  language, not to the file, and is a parameter. The test on the url is
  \<^verbatim>\<open>p.url && p.url.toLowerCase().includes(query)\<close>: a missing or empty url is falsy.
\<close>

definition getFilteredPasswords :: "(jsstring \<Rightarrow> jsstring) \<Rightarrow> view \<Rightarrow> PasswordEntry list" where
  "getFilteredPasswords toLowerCase v =
     (if searchQuery v = [] then passwords v
      else
        (let query = toLowerCase (searchQuery v) in
         filter
           (\<lambda>p. includes_js (toLowerCase (name p)) query \<or>
                includes_js (toLowerCase (username p)) query \<or>
                (case url p of
                   None \<Rightarrow> False
                 | Some u \<Rightarrow> u \<noteq> [] \<and> includes_js (toLowerCase u) query))
           (passwords v)))"

subsection \<open>The filter as the specification words it\<close>




subsection \<open>Concrete inputs\<close>

text \<open>
  ASCII text as a JavaScript string, and \<^verbatim>\<open>toLowerCase\<close> as it acts on such
  strings: the code units of \<^verbatim>\<open>A\<close> to \<^verbatim>\<open>Z\<close> move to \<^verbatim>\<open>a\<close> to \<^verbatim>\<open>z\<close>.
\<close>

definition ascii :: "string \<Rightarrow> jsstring" where
  "ascii s = map of_char s"

definition ascii_toLowerCase :: "jsstring \<Rightarrow> jsstring" where
  "ascii_toLowerCase s = map (\<lambda>c. if 0x41 \<le> c \<and> c \<le> 0x5A then c + 0x20 else c) s"

text \<open>A backend without state that gives the same four replies whatever it is sent.\<close>

definition scripted ::
  "(jsstring + PasswordEntry list) \<Rightarrow> (jsstring + unit) \<Rightarrow> (jsstring + unit) \<Rightarrow>
     (jsstring + jsstring) \<Rightarrow> unit backend" where
  "scripted g a d p =
     \<lparr>get_passwords = (\<lambda>st. (g, st)),
      add_password = (\<lambda>_ _ _ _ _ st. (a, st)),
      delete_password = (\<lambda>_ st. (d, st)),
      generate_password = (\<lambda>_ st. (p, st))\<rparr>"

text \<open>
  A backend that keeps the entries in a list: adding appends unless the name is taken,
  deleting removes the entries of the name, generating gives a string of the asked
  length within 8 to 32.
\<close>

definition list_backend :: "PasswordEntry list backend" where
  "list_backend =
     \<lparr>get_passwords = (\<lambda>st. (Inr st, st)),
      add_password = (\<lambda>n u p l t st.
        if n \<in> set (map name st) then (Inl (ascii ''duplicate name''), st)
        else (Inr (), st @ [\<lparr>name = n, username = u, password = p, url = l, notes_opt = t\<rparr>])),
      delete_password = (\<lambda>n st.
        if n \<in> set (map name st) then (Inr (), filter (\<lambda>e. name e \<noteq> n) st)
        else (Inl (ascii ''no such entry''), st)),
      generate_password = (\<lambda>len st.
        if 8 \<le> len \<and> len \<le> 32 then (Inr (replicate (nat len) 0x61), st)
        else (Inl (ascii ''bad length''), st))\<rparr>"

text \<open>The two answers a user can give to the dialog.\<close>

definition user_accepts :: "jsstring \<Rightarrow> bool" where
  "user_accepts question = True"

definition user_refuses :: "jsstring \<Rightarrow> bool" where
  "user_refuses question = False"

definition fresh_world :: "'b \<Rightarrow> 'b world" where
  "fresh_world st = \<lparr>store = st, trace = []\<rparr>"

text \<open>The two entries of the specification's scenario.\<close>

definition bank :: PasswordEntry where
  "bank =
     \<lparr>name = ascii ''Bank'', username = ascii ''alice'', password = ascii ''x'',
      url = Some (ascii ''bank.com''), notes_opt = None\<rparr>"

definition email :: PasswordEntry where
  "email =
     \<lparr>name = ascii ''Email'', username = ascii ''alice'', password = ascii ''y'',
      url = None, notes_opt = None\<rparr>"

text \<open>The view after both entries were loaded and the first one was clicked.\<close>

definition bank_selected :: view where
  "bank_selected = initial_view\<lparr>passwords := [bank, email], selectedPassword := Some bank\<rparr>"

text \<open>The form as filled in for a third entry, with the url and the notes left empty.\<close>

definition shop_form :: view where
  "shop_form =
     bank_selected
       \<lparr>showAddForm := True,
        newPassword :=
          \<lparr>name = ascii ''Shop'', username = ascii ''bob'', password = ascii ''z'',
           url = Some [], notes_opt = Some []\<rparr>\<rparr>"

section \<open>Properties\<close>

lemmas example_defs =
  bank_def email_def bank_selected_def shop_form_def initial_view_def empty_form_def
  ascii_def ascii_toLowerCase_def scripted_def list_backend_def fresh_world_def
  user_accepts_def user_refuses_def

subsection \<open>Replies of the backend\<close>

lemma reply_cases:
  obtains e st where "r = (Inl e, st)" | x st where "r = (Inr x, st)"
  by (cases r; cases "fst r") auto

subsection \<open>Loading\<close>

lemma loadPasswords_Inl:
  "get_passwords b (store w) = (Inl e, st) \<Longrightarrow>
     loadPasswords b v w =
       (v\<lparr>errorMessage := load_error_text @ e\<rparr>,
        \<lparr>store = st, trace = trace w @ [Invoke Get_passwords]\<rparr>)"
  by (simp add: loadPasswords_def invoke_get_passwords_def)

lemma loadPasswords_Inr:
  "get_passwords b (store w) = (Inr ps, st) \<Longrightarrow>
     loadPasswords b v w =
       (v\<lparr>passwords := ps\<rparr>, \<lparr>store = st, trace = trace w @ [Invoke Get_passwords]\<rparr>)"
  by (simp add: loadPasswords_def invoke_get_passwords_def)

lemma loadPasswords_selectedPassword:
  "selectedPassword (fst (loadPasswords b v w)) = selectedPassword v"
  by (rule reply_cases [of "get_passwords b (store w)"])
    (simp_all add: loadPasswords_Inl loadPasswords_Inr)

lemma loadPasswords_newPassword: "newPassword (fst (loadPasswords b v w)) = newPassword v"
  by (rule reply_cases [of "get_passwords b (store w)"])
    (simp_all add: loadPasswords_Inl loadPasswords_Inr)

lemma loadPasswords_showAddForm: "showAddForm (fst (loadPasswords b v w)) = showAddForm v"
  by (rule reply_cases [of "get_passwords b (store w)"])
    (simp_all add: loadPasswords_Inl loadPasswords_Inr)

lemma loadPasswords_trace:
  "trace (snd (loadPasswords b v w)) = trace w @ [Invoke Get_passwords]"
  by (rule reply_cases [of "get_passwords b (store w)"])
    (simp_all add: loadPasswords_Inl loadPasswords_Inr)

text \<open>
  C2. Whatever the view and the backend, a rejected \<^verbatim>\<open>get_passwords\<close> leaves the
  collection as it was and writes into the error slot the load message followed by the
  error; nothing else of the view changes. The collection is replaced, by the whole
  list received, in the one case that the call resolved.
\<close>

theorem loadPasswords_atomic:
  "(case fst (get_passwords b (store w)) of
      Inl error \<Rightarrow>
        passwords (fst (loadPasswords b v w)) = passwords v \<and>
        errorMessage (fst (loadPasswords b v w)) = load_error_text @ error \<and>
        fst (loadPasswords b v w) = v\<lparr>errorMessage := load_error_text @ error\<rparr>
    | Inr ps \<Rightarrow> fst (loadPasswords b v w) = v\<lparr>passwords := ps\<rparr>)"
  by (rule reply_cases [of "get_passwords b (store w)"])
    (simp_all add: loadPasswords_Inl loadPasswords_Inr)

subsection \<open>Adding\<close>

lemma addPassword_Inl:
  assumes "add_password b (name (newPassword v)) (username (newPassword v))
             (password (newPassword v)) (or_null (url (newPassword v)))
             (or_null (notes_opt (newPassword v))) (store w) = (Inl e, st)"
  shows "addPassword b v w =
           (v\<lparr>errorMessage := add_error_text @ e\<rparr>,
            \<lparr>store = st,
             trace = trace w @
               [Invoke (Add_password (name (newPassword v)) (username (newPassword v))
                  (password (newPassword v)) (or_null (url (newPassword v)))
                  (or_null (notes_opt (newPassword v))))]\<rparr>)"
  using assms by (simp add: addPassword_def invoke_add_password_def)

lemma addPassword_Inr:
  assumes "add_password b (name (newPassword v)) (username (newPassword v))
             (password (newPassword v)) (or_null (url (newPassword v)))
             (or_null (notes_opt (newPassword v))) (store w) = (Inr u, st)"
  shows "addPassword b v w =
           loadPasswords b (v\<lparr>newPassword := empty_form, showAddForm := False\<rparr>)
            \<lparr>store = st,
             trace = trace w @
               [Invoke (Add_password (name (newPassword v)) (username (newPassword v))
                  (password (newPassword v)) (or_null (url (newPassword v)))
                  (or_null (notes_opt (newPassword v))))]\<rparr>"
  using assms by (simp add: addPassword_def invoke_add_password_def)

lemma or_null_eq: "or_null x = (if x = Some [] then None else x)"
  by (simp add: or_null_def split: option.splits)

text \<open>
  C3. Whatever the form holds: when the \<^verbatim>\<open>add_password\<close> call resolves, the form is
  back to the empty entry and the add dialog is closed after \<^verbatim>\<open>addPassword\<close>; when
  the call is rejected, the form is as it was, the dialog flag is as it was (so an open
  dialog stays open), and the error slot holds the add message followed by the error.
\<close>

theorem addPassword_form:
  "(let d = newPassword v; v' = fst (addPassword b v w) in
    case fst (add_password b (name d) (username d) (password d)
                (or_null (url d)) (or_null (notes_opt d)) (store w)) of
      Inr _ \<Rightarrow> newPassword v' = empty_form \<and> \<not> showAddForm v'
    | Inl error \<Rightarrow>
        newPassword v' = newPassword v \<and> showAddForm v' = showAddForm v \<and>
        errorMessage v' = add_error_text @ error)"
  unfolding Let_def
  by (rule reply_cases [of "add_password b (name (newPassword v)) (username (newPassword v))
             (password (newPassword v)) (or_null (url (newPassword v)))
             (or_null (notes_opt (newPassword v))) (store w)"])
    (simp_all add: addPassword_Inl addPassword_Inr loadPasswords_newPassword
       loadPasswords_showAddForm)

text \<open>
  C4. The first command \<^verbatim>\<open>addPassword\<close> sends is \<^verbatim>\<open>add_password\<close> with the name,
  the username and the password of the form as they are, and with the url and the notes
  absent when the form has them empty (or absent) and as they are otherwise. The only
  command that can follow is the reload.
\<close>

theorem addPassword_request:
  "(let d = newPassword v in
    \<exists>rest. trace (snd (addPassword b v w)) =
             trace w @
             Invoke (Add_password (name d) (username d) (password d)
               (if url d = Some [] then None else url d)
               (if notes_opt d = Some [] then None else notes_opt d)) # rest \<and>
           (rest = [] \<or> rest = [Invoke Get_passwords]))"
  unfolding Let_def
  by (rule reply_cases [of "add_password b (name (newPassword v)) (username (newPassword v))
             (password (newPassword v)) (or_null (url (newPassword v)))
             (or_null (notes_opt (newPassword v))) (store w)"])
    (simp_all add: addPassword_Inl addPassword_Inr loadPasswords_trace or_null_eq)

text \<open>
  C10. When the \<^verbatim>\<open>add_password\<close> call resolves and the \<^verbatim>\<open>get_passwords\<close> call of
  the reload that follows is rejected, \<^verbatim>\<open>addPassword\<close> still ends with the form
  reset and the dialog closed; the collection is the one from before the add and the
  error slot holds the load message (not the add message) followed by the error of the
  reload.
\<close>

theorem addPassword_reload_rejected:
  assumes "add_password b (name (newPassword v)) (username (newPassword v))
             (password (newPassword v)) (or_null (url (newPassword v)))
             (or_null (notes_opt (newPassword v))) (store w) = (Inr u, st)"
    and "get_passwords b st = (Inl error, st')"
  shows "newPassword (fst (addPassword b v w)) = empty_form \<and>
         \<not> showAddForm (fst (addPassword b v w)) \<and>
         passwords (fst (addPassword b v w)) = passwords v \<and>
         errorMessage (fst (addPassword b v w)) = load_error_text @ error"
  using assms by (simp add: addPassword_Inr loadPasswords_Inl)

text \<open>
  The form for the third entry is sent to a backend that accepts the add and then
  rejects the reload.
\<close>

theorem addPassword_reload_rejected_witness:
  "add_password (scripted (Inl (ascii ''offline'')) (Inr ()) (Inr ()) (Inr []))
     (name (newPassword shop_form)) (username (newPassword shop_form))
     (password (newPassword shop_form)) (or_null (url (newPassword shop_form)))
     (or_null (notes_opt (newPassword shop_form))) (store (fresh_world ())) = (Inr (), ()) \<and>
   get_passwords (scripted (Inl (ascii ''offline'')) (Inr ()) (Inr ()) (Inr [])) () =
     (Inl (ascii ''offline''), ()) \<and>
   newPassword (fst (addPassword (scripted (Inl (ascii ''offline'')) (Inr ()) (Inr ()) (Inr []))
     shop_form (fresh_world ()))) = empty_form \<and>
   \<not> showAddForm (fst (addPassword (scripted (Inl (ascii ''offline'')) (Inr ()) (Inr ()) (Inr []))
     shop_form (fresh_world ()))) \<and>
   passwords (fst (addPassword (scripted (Inl (ascii ''offline'')) (Inr ()) (Inr ()) (Inr []))
     shop_form (fresh_world ()))) = [bank, email] \<and>
   errorMessage (fst (addPassword (scripted (Inl (ascii ''offline'')) (Inr ()) (Inr ()) (Inr []))
     shop_form (fresh_world ()))) = load_error_text @ ascii ''offline''"
proof -
  have a: "add_password (scripted (Inl (ascii ''offline'')) (Inr ()) (Inr ()) (Inr []))
     (name (newPassword shop_form)) (username (newPassword shop_form))
     (password (newPassword shop_form)) (or_null (url (newPassword shop_form)))
     (or_null (notes_opt (newPassword shop_form))) (store (fresh_world ())) = (Inr (), ())"
    by (simp add: scripted_def)
  have g: "get_passwords (scripted (Inl (ascii ''offline'')) (Inr ()) (Inr ()) (Inr [])) () =
     (Inl (ascii ''offline''), ())"
    by (simp add: scripted_def)
  have p: "passwords shop_form = [bank, email]"
    by (simp add: shop_form_def bank_selected_def)
  show ?thesis
    using a g p addPassword_reload_rejected [OF a g] by simp
qed

subsection \<open>Deleting\<close>

lemma deletePassword_refused:
  "\<not> confirm (confirm_text nm) \<Longrightarrow>
     deletePassword b confirm nm v w =
       (v, w\<lparr>trace := trace w @ [Dialog (confirm_text nm) False]\<rparr>)"
  by (simp add: deletePassword_def confirm_dialog_def)

lemma deletePassword_Inl:
  "confirm (confirm_text nm) \<Longrightarrow> delete_password b nm (store w) = (Inl e, st) \<Longrightarrow>
     deletePassword b confirm nm v w =
       (v\<lparr>errorMessage := delete_error_text @ e\<rparr>,
        \<lparr>store = st,
         trace = trace w @ [Dialog (confirm_text nm) True, Invoke (Delete_password nm)]\<rparr>)"
  by (simp add: deletePassword_def confirm_dialog_def invoke_delete_password_def)

lemma deletePassword_Inr:
  "confirm (confirm_text nm) \<Longrightarrow> delete_password b nm (store w) = (Inr u, st) \<Longrightarrow>
     deletePassword b confirm nm v w =
       (case loadPasswords b v
               \<lparr>store = st,
                trace = trace w @
                  [Dialog (confirm_text nm) True, Invoke (Delete_password nm)]\<rparr> of
          (v2, w2) \<Rightarrow>
            (if (case selectedPassword v2 of None \<Rightarrow> False | Some p \<Rightarrow> name p = nm)
             then (v2\<lparr>selectedPassword := None\<rparr>, w2)
             else (v2, w2)))"
  by (simp add: deletePassword_def confirm_dialog_def invoke_delete_password_def)

lemma deletePassword_Inr_selectedPassword:
  assumes "confirm (confirm_text nm)" and "delete_password b nm (store w) = (Inr u, st)"
  shows "selectedPassword (fst (deletePassword b confirm nm v w)) =
           (if \<exists>p. selectedPassword v = Some p \<and> name p = nm then None
            else selectedPassword v)"
proof -
  define w1 where
    "w1 = \<lparr>store = st,
           trace = trace w @ [Dialog (confirm_text nm) True, Invoke (Delete_password nm)]\<rparr>"
  obtain v2 w2 where l: "loadPasswords b v w1 = (v2, w2)"
    by (cases "loadPasswords b v w1")
  have "selectedPassword v2 = selectedPassword v"
    using loadPasswords_selectedPassword [of b v w1] by (simp add: l)
  with assms show ?thesis
    by (simp add: deletePassword_Inr l [unfolded w1_def] split: option.splits)
qed

lemma deletePassword_Inr_trace:
  assumes "confirm (confirm_text nm)" and "delete_password b nm (store w) = (Inr u, st)"
  shows "trace (snd (deletePassword b confirm nm v w)) =
           trace w @
           [Dialog (confirm_text nm) True, Invoke (Delete_password nm), Invoke Get_passwords]"
proof -
  define w1 where
    "w1 = \<lparr>store = st,
           trace = trace w @ [Dialog (confirm_text nm) True, Invoke (Delete_password nm)]\<rparr>"
  obtain v2 w2 where l: "loadPasswords b v w1 = (v2, w2)"
    by (cases "loadPasswords b v w1")
  have "trace w2 = trace w1 @ [Invoke Get_passwords]"
    using loadPasswords_trace [of b v w1] by (simp add: l)
  then have "trace w2 =
      trace w @
      [Dialog (confirm_text nm) True, Invoke (Delete_password nm), Invoke Get_passwords]"
    by (simp add: w1_def)
  with assms show ?thesis
    by (simp add: deletePassword_Inr l [unfolded w1_def])
qed

text \<open>
  C5. \<^verbatim>\<open>deletePassword\<close> asks before it sends anything. When the user accepts, the
  delete of the name is sent right after the answer. When the user refuses, the trace
  grows by the question and its answer and by nothing else, so no command is sent, and
  the view (the collection, the selection, the error slot and every other cell) and the
  state of the backend are what they were.
\<close>

theorem deletePassword_confirmation:
  "(if confirm (confirm_text nm)
    then \<exists>rest. trace (snd (deletePassword b confirm nm v w)) =
                  trace w @
                  Dialog (confirm_text nm) True # Invoke (Delete_password nm) # rest
    else fst (deletePassword b confirm nm v w) = v \<and>
         store (snd (deletePassword b confirm nm v w)) = store w \<and>
         trace (snd (deletePassword b confirm nm v w)) =
           trace w @ [Dialog (confirm_text nm) False])"
proof (cases "confirm (confirm_text nm)")
  case True
  show ?thesis
  proof (rule reply_cases [of "delete_password b nm (store w)"])
    fix e st assume "delete_password b nm (store w) = (Inl e, st)"
    with True show ?thesis by (simp add: deletePassword_Inl)
  next
    fix u st assume "delete_password b nm (store w) = (Inr u, st)"
    with True show ?thesis by (simp add: deletePassword_Inr_trace)
  qed
next
  case False
  then show ?thesis by (simp add: deletePassword_refused)
qed

text \<open>
  C6. For a confirmed \<^verbatim>\<open>deletePassword(name)\<close>: when the \<^verbatim>\<open>delete_password\<close> call
  resolves, the selection afterwards is empty if the selected entry had that name and
  is what it was otherwise; when the call is rejected, the selection and the collection
  are what they were and the error slot holds the delete message followed by the error.
\<close>

theorem deletePassword_selection:
  assumes "confirm (confirm_text nm)"
  shows "(case fst (delete_password b nm (store w)) of
            Inr _ \<Rightarrow>
              selectedPassword (fst (deletePassword b confirm nm v w)) =
                (if \<exists>p. selectedPassword v = Some p \<and> name p = nm then None
                 else selectedPassword v)
          | Inl error \<Rightarrow>
              selectedPassword (fst (deletePassword b confirm nm v w)) = selectedPassword v \<and>
              passwords (fst (deletePassword b confirm nm v w)) = passwords v \<and>
              errorMessage (fst (deletePassword b confirm nm v w)) = delete_error_text @ error)"
proof (rule reply_cases [of "delete_password b nm (store w)"])
  fix e st assume "delete_password b nm (store w) = (Inl e, st)"
  with assms show ?thesis by (simp add: deletePassword_Inl)
next
  fix u st assume "delete_password b nm (store w) = (Inr u, st)"
  with assms show ?thesis by (simp add: deletePassword_Inr_selectedPassword)
qed

text \<open>
  The selected entry is deleted in a backend that no longer has it: the delete is
  rejected and the selection stays on the entry.
\<close>

theorem deletePassword_selection_witness:
  "user_accepts (confirm_text (ascii ''Bank'')) \<and>
   fst (delete_password list_backend (ascii ''Bank'') (store (fresh_world [email]))) =
     Inl (ascii ''no such entry'') \<and>
   selectedPassword
     (fst (deletePassword list_backend user_accepts (ascii ''Bank'') bank_selected
        (fresh_world [email]))) = Some bank \<and>
   passwords
     (fst (deletePassword list_backend user_accepts (ascii ''Bank'') bank_selected
        (fresh_world [email]))) = [bank, email] \<and>
   errorMessage
     (fst (deletePassword list_backend user_accepts (ascii ''Bank'') bank_selected
        (fresh_world [email]))) = delete_error_text @ ascii ''no such entry''"
proof -
  have c: "user_accepts (confirm_text (ascii ''Bank''))"
    by (simp add: user_accepts_def)
  have d: "fst (delete_password list_backend (ascii ''Bank'') (store (fresh_world [email]))) =
      Inl (ascii ''no such entry'')"
    by (simp add: list_backend_def fresh_world_def email_def ascii_def)
  have s: "selectedPassword bank_selected = Some bank" "passwords bank_selected = [bank, email]"
    by (simp_all add: bank_selected_def)
  show ?thesis
    using c d s
      deletePassword_selection
        [where confirm = user_accepts and nm = "ascii ''Bank''" and b = list_backend
           and w = "fresh_world [email]" and v = bank_selected, OF c]
    by simp
qed

text \<open>
  C1, as amended. \<^verbatim>\<open>loadPasswords\<close> never changes the selection: for every backend,
  view and world, whatever list it receives and also when the list has no entry of the
  selected name, the selection after it is the selection before it. The selection
  becomes empty when a confirmed \<^verbatim>\<open>deletePassword(name)\<close> whose
  \<^verbatim>\<open>delete_password\<close> call resolves names the selected entry.
\<close>

theorem selection_cleared_by_delete:
  "selectedPassword (fst (loadPasswords b' v' w')) = selectedPassword v' \<and>
   (confirm (confirm_text nm) \<longrightarrow>
    delete_password b nm (store w) = (Inr u, st) \<longrightarrow>
    selectedPassword v = Some p \<longrightarrow>
    name p = nm \<longrightarrow>
    selectedPassword (fst (deletePassword b confirm nm v w)) = None)"
proof (intro conjI impI)
  show "selectedPassword (fst (loadPasswords b' v' w')) = selectedPassword v'"
    by (rule loadPasswords_selectedPassword)
next
  assume "confirm (confirm_text nm)"
    and "delete_password b nm (store w) = (Inr u, st)"
    and "selectedPassword v = Some p"
    and "name p = nm"
  then show "selectedPassword (fst (deletePassword b confirm nm v w)) = None"
    by (simp add: deletePassword_Inr_selectedPassword)
qed

text \<open>
  The reload is run where the backend holds the second entry only: the list received has
  no entry of the selected name and the selection stays on the first entry. The delete
  is run where the backend has the selected entry: the selection is dropped.
\<close>

theorem selection_cleared_by_delete_witness:
  "passwords (fst (loadPasswords list_backend bank_selected (fresh_world [email]))) = [email] \<and>
   selectedPassword (fst (loadPasswords list_backend bank_selected (fresh_world [email]))) =
     Some bank \<and>
   user_accepts (confirm_text (ascii ''Bank'')) \<and>
   delete_password list_backend (ascii ''Bank'') (store (fresh_world [bank, email])) =
     (Inr (), [email]) \<and>
   selectedPassword bank_selected = Some bank \<and>
   name bank = ascii ''Bank'' \<and>
   selectedPassword
     (fst (deletePassword list_backend user_accepts (ascii ''Bank'') bank_selected
        (fresh_world [bank, email]))) = None"
proof -
  have l: "passwords (fst (loadPasswords list_backend bank_selected (fresh_world [email]))) =
      [email]"
    by (simp add: loadPasswords_def invoke_get_passwords_def list_backend_def fresh_world_def)
  have c: "user_accepts (confirm_text (ascii ''Bank''))"
    by (simp add: user_accepts_def)
  have d: "delete_password list_backend (ascii ''Bank'') (store (fresh_world [bank, email])) =
      (Inr (), [email])"
    by (simp add: list_backend_def fresh_world_def bank_def email_def ascii_def)
  have s: "selectedPassword bank_selected = Some bank"
    by (simp add: bank_selected_def)
  have n: "name bank = ascii ''Bank''"
    by (simp add: bank_def)
  show ?thesis
    using l c d s n
      selection_cleared_by_delete
        [where b' = list_backend and v' = bank_selected and w' = "fresh_world [email]"
           and confirm = user_accepts and nm = "ascii ''Bank''" and b = list_backend
           and w = "fresh_world [bank, email]" and u = "()" and st = "[email]"
           and v = bank_selected and p = bank]
    by simp
qed

text \<open>
  C1, as the specification states it, fails. The view shows the two entries with the
  first one selected; the backend by now holds the second entry only. After
  \<^verbatim>\<open>loadPasswords\<close> the collection has no entry of the selected name, and the
  selection is still the first entry.
\<close>

theorem selection_survives_reload:
  "selectedPassword bank_selected = Some bank \<and>
   bank \<in> set (passwords bank_selected) \<and>
   name bank \<notin>
     set (map name
       (passwords (fst (loadPasswords list_backend bank_selected (fresh_world [email]))))) \<and>
   selectedPassword (fst (loadPasswords list_backend bank_selected (fresh_world [email]))) =
     Some bank"
  by (simp add: loadPasswords_def invoke_get_passwords_def example_defs)

subsection \<open>Generating\<close>

text \<open>
  C7. Whatever the length and the view: when the \<^verbatim>\<open>generate_password\<close> call resolves,
  the view after \<^verbatim>\<open>generatePassword\<close> is the view before with the returned string
  in the password field of the form, so the collection and every other cell are
  untouched; when the call is rejected, the view is the view before with the error slot
  rewritten, so the password field of the form keeps its value.
\<close>

theorem generatePassword_frame:
  "(case fst (generate_password b (passwordLength v) (store w)) of
      Inr s \<Rightarrow>
        fst (generatePassword b v w) = v\<lparr>newPassword := (newPassword v)\<lparr>password := s\<rparr>\<rparr> \<and>
        passwords (fst (generatePassword b v w)) = passwords v
    | Inl error \<Rightarrow>
        fst (generatePassword b v w) = v\<lparr>errorMessage := generate_error_text @ error\<rparr> \<and>
        password (newPassword (fst (generatePassword b v w))) = password (newPassword v))"
  by (rule reply_cases [of "generate_password b (passwordLength v) (store w)"])
    (simp_all add: generatePassword_def invoke_generate_password_def)

subsection \<open>Filtering\<close>









text \<open>
  C9. Filtering is idempotent: with the result of \<^verbatim>\<open>getFilteredPasswords\<close> put in
  place of the collection and the query kept, \<^verbatim>\<open>getFilteredPasswords\<close> returns the same
  list again.
\<close>

theorem getFilteredPasswords_idempotent:
  "getFilteredPasswords toLowerCase (v\<lparr>passwords := getFilteredPasswords toLowerCase v\<rparr>) =
     getFilteredPasswords toLowerCase v"
  by (simp add: getFilteredPasswords_def Let_def)

subsection \<open>Scenarios of the specification\<close>

text \<open>
  The query \<^verbatim>\<open>bank\<close> selects the first entry only, in upper case as in lower case.
\<close>

lemma scenario_filter_bank:
  "getFilteredPasswords ascii_toLowerCase (bank_selected\<lparr>searchQuery := ascii ''bank''\<rparr>) =
     [bank] \<and>
   getFilteredPasswords ascii_toLowerCase (bank_selected\<lparr>searchQuery := ascii ''BANK''\<rparr>) =
     [bank]"
  by (simp add: getFilteredPasswords_def Let_def example_defs)

text \<open>
  The form with an empty url and empty notes is sent with both absent; the backend
  takes the entry and the reload shows it last.
\<close>

lemma scenario_add_empty_url:
  "trace (snd (addPassword list_backend shop_form (fresh_world [bank, email]))) =
     [Invoke (Add_password (ascii ''Shop'') (ascii ''bob'') (ascii ''z'') None None),
      Invoke Get_passwords] \<and>
   map name (passwords (fst (addPassword list_backend shop_form (fresh_world [bank, email])))) =
     [ascii ''Bank'', ascii ''Email'', ascii ''Shop'']"
  by (simp add: addPassword_def invoke_add_password_def loadPasswords_def
      invoke_get_passwords_def or_null_def example_defs)

text \<open>A taken name is rejected by this backend: the form stays as it was filled in.\<close>

lemma scenario_add_duplicate:
  "newPassword (fst (addPassword list_backend shop_form
     (fresh_world [newPassword shop_form\<lparr>url := None, notes_opt := None\<rparr>]))) =
     newPassword shop_form \<and>
   showAddForm (fst (addPassword list_backend shop_form
     (fresh_world [newPassword shop_form\<lparr>url := None, notes_opt := None\<rparr>]))) \<and>
   errorMessage (fst (addPassword list_backend shop_form
     (fresh_world [newPassword shop_form\<lparr>url := None, notes_opt := None\<rparr>]))) =
     add_error_text @ ascii ''duplicate name''"
  by (simp add: addPassword_def invoke_add_password_def or_null_def example_defs)

text \<open>A refused delete sends nothing; an accepted one removes the entry and the selection.\<close>

lemma scenario_delete:
  "deletePassword list_backend user_refuses (ascii ''Bank'') bank_selected
       (fresh_world [bank, email]) =
     (bank_selected,
      \<lparr>store = [bank, email], trace = [Dialog (confirm_text (ascii ''Bank'')) False]\<rparr>) \<and>
   deletePassword list_backend user_accepts (ascii ''Bank'') bank_selected
       (fresh_world [bank, email]) =
     (bank_selected\<lparr>passwords := [email], selectedPassword := None\<rparr>,
      \<lparr>store = [email],
       trace = [Dialog (confirm_text (ascii ''Bank'')) True,
                Invoke (Delete_password (ascii ''Bank'')), Invoke Get_passwords]\<rparr>)"
  by (simp add: deletePassword_def confirm_dialog_def invoke_delete_password_def
      loadPasswords_def invoke_get_passwords_def example_defs)

text \<open>Two generations in a row: the form holds the second string, of the asked length.\<close>

lemma scenario_generate_twice:
  "length (password (newPassword (fst
     (case generatePassword list_backend shop_form (fresh_world []) of
        (v1, w1) \<Rightarrow> generatePassword list_backend (v1\<lparr>passwordLength := 20\<rparr>) w1)))) = 20"
  by (simp add: generatePassword_def invoke_generate_password_def example_defs)

end
